theory Spec2Isabelle
  imports Complex_Main "HOL-Library.Word" "HOL-Library.Sublist"
begin

section \<open>Scalars of type double\<close>

text \<open>
  The scalar type of \<^verbatim>\<open>GraphAndConstant::constant\<close> and of every tolerance is the C++
  type \<^verbatim>\<open>double\<close>. A value is a finite number, one of the two infinities, or a NaN.
  Finite values carry their exact real value, and the difference of two finite values is
  the exact one. The subtraction of the code rounds the exact difference to the nearest
  double and overflows to an infinity; it returns the exact difference wherever that
  difference is itself a double (\<open>is_binary64\<close> below). The sign of zero is not
  represented. Every pair of concrete constants evaluated below has a difference that is
  a double.
\<close>

datatype double = Finite real | PosInf | NegInf | NaN

text \<open>Binary \<^verbatim>\<open>-\<close> on doubles.\<close>

fun minus_double :: "double \<Rightarrow> double \<Rightarrow> double" where
  "minus_double NaN _ = NaN"
| "minus_double _ NaN = NaN"
| "minus_double (Finite a) (Finite b) = Finite (a - b)"
| "minus_double (Finite a) PosInf = NegInf"
| "minus_double (Finite a) NegInf = PosInf"
| "minus_double PosInf PosInf = NaN"
| "minus_double PosInf _ = PosInf"
| "minus_double NegInf NegInf = NaN"
| "minus_double NegInf _ = NegInf"

text \<open>\<^verbatim>\<open>fabs\<close> of \<^verbatim>\<open><cmath>\<close>.\<close>

fun fabs :: "double \<Rightarrow> double" where
  "fabs (Finite a) = Finite \<bar>a\<bar>"
| "fabs PosInf = PosInf"
| "fabs NegInf = PosInf"
| "fabs NaN = NaN"

text \<open>The comparisons \<^verbatim>\<open><\<close>, \<^verbatim>\<open><=\<close> and \<^verbatim>\<open>==\<close> on doubles: each is false when an
  operand is a NaN.\<close>

fun less_double :: "double \<Rightarrow> double \<Rightarrow> bool" where
  "less_double NaN _ = False"
| "less_double _ NaN = False"
| "less_double (Finite a) (Finite b) = (a < b)"
| "less_double _ NegInf = False"
| "less_double PosInf _ = False"
| "less_double NegInf _ = True"
| "less_double (Finite a) PosInf = True"

fun eq_double :: "double \<Rightarrow> double \<Rightarrow> bool" where
  "eq_double (Finite a) (Finite b) = (a = b)"
| "eq_double PosInf PosInf = True"
| "eq_double NegInf NegInf = True"
| "eq_double (Finite a) _ = False"
| "eq_double PosInf _ = False"
| "eq_double NegInf _ = False"
| "eq_double NaN _ = False"

definition le_double :: "double \<Rightarrow> double \<Rightarrow> bool" where
  "le_double a b = (less_double a b \<or> eq_double a b)"

text \<open>\<^verbatim>\<open>std::isfinite\<close>.\<close>

fun isfinite :: "double \<Rightarrow> bool" where
  "isfinite (Finite a) = True"
| "isfinite _ = False"


section \<open>GraphAndConstant\<close>

text \<open>
  \<^verbatim>\<open>struct GraphAndConstant { GaussianFactorGraph graph; double constant; ... }\<close>.
  The class \<^verbatim>\<open>GaussianFactorGraph\<close> is declared in
  \<^verbatim>\<open>gtsam/linear/GaussianFactorGraph.h\<close>, which is not among the sources: the type of
  graphs is the type parameter \<open>'g\<close>, and the two operations of the graph that the struct
  calls, \<^verbatim>\<open>graph == other.graph\<close> and \<^verbatim>\<open>graph.equals(other.graph, tol)\<close>, are
  parameters of the functions that call them. (The field is written \<open>constant'\<close>, the
  plain word being reserved.)
\<close>

record 'g GraphAndConstant =
  graph :: 'g
  constant' :: double

text \<open>The constructor \<^verbatim>\<open>GraphAndConstant(graph, constant) : graph(graph), constant(constant) {}\<close>.\<close>

definition GraphAndConstant_ctor :: "'g \<Rightarrow> double \<Rightarrow> 'g GraphAndConstant" where
  "GraphAndConstant_ctor g c = \<lparr>graph = g, constant' = c\<rparr>"

text \<open>\<^verbatim>\<open>operator==\<close>:
  \<^verbatim>\<open>return graph == other.graph && constant == other.constant;\<close>\<close>

definition GraphAndConstant_operator_eq ::
  "('g \<Rightarrow> 'g \<Rightarrow> bool) \<Rightarrow> 'g GraphAndConstant \<Rightarrow> 'g GraphAndConstant \<Rightarrow> bool" where
  "GraphAndConstant_operator_eq graph_eq x other =
     (graph_eq (graph x) (graph other) \<and> eq_double (constant' x) (constant' other))"

text \<open>\<^verbatim>\<open>equals\<close>:
  \<^verbatim>\<open>return graph.equals(other.graph, tol) && fabs(constant - other.constant) < tol;\<close>\<close>

definition GraphAndConstant_equals ::
  "('g \<Rightarrow> 'g \<Rightarrow> double \<Rightarrow> bool) \<Rightarrow> 'g GraphAndConstant \<Rightarrow> 'g GraphAndConstant \<Rightarrow> double \<Rightarrow> bool" where
  "GraphAndConstant_equals graph_equals x other tol =
     (graph_equals (graph x) (graph other) tol \<and>
      less_double (fabs (minus_double (constant' x) (constant' other))) tol)"



text \<open>\<^verbatim>\<open>print\<close>:
  \<^verbatim>\<open>graph.print(s, formatter); std::cout << "Constant: " << constant << std::endl;\<close>
  Standard output is the text written so far. What \<^verbatim>\<open>graph.print\<close> writes and how
  \<^verbatim>\<open><<\<close> formats a double are parameters; \<open>'f\<close> is the type of key formatters.\<close>

definition GraphAndConstant_print ::
  "('g \<Rightarrow> string \<Rightarrow> 'f \<Rightarrow> string) \<Rightarrow> (double \<Rightarrow> string) \<Rightarrow>
   'g GraphAndConstant \<Rightarrow> string \<Rightarrow> 'f \<Rightarrow> string \<Rightarrow> string" where
  "GraphAndConstant_print graph_print insert_double x s formatter cout =
     cout @ graph_print (graph x) s formatter @
       ''Constant: '' @ insert_double (constant' x) @ [CHR 0x0A]"

subsection \<open>Calls on an object\<close>

text \<open>
  The three member functions are declared \<^verbatim>\<open>const\<close>: a call reads the object, returns a
  value or writes to standard output, and leaves the object as it is. A call is run on
  the object and the standard output, and gives both back with the value returned.
\<close>

datatype ('g, 'f) member_call =
    Call_operator_eq "'g GraphAndConstant"
  | Call_print string 'f
  | Call_equals "'g GraphAndConstant" double

fun call ::
  "('g \<Rightarrow> 'g \<Rightarrow> bool) \<Rightarrow> ('g \<Rightarrow> 'g \<Rightarrow> double \<Rightarrow> bool) \<Rightarrow>
   ('g \<Rightarrow> string \<Rightarrow> 'f \<Rightarrow> string) \<Rightarrow> (double \<Rightarrow> string) \<Rightarrow>
   ('g, 'f) member_call \<Rightarrow> 'g GraphAndConstant \<times> string \<Rightarrow>
   ('g GraphAndConstant \<times> string) \<times> bool option" where
  "call graph_eq graph_equals graph_print insert_double (Call_operator_eq other) (x, cout) =
     ((x, cout), Some (GraphAndConstant_operator_eq graph_eq x other))"
| "call graph_eq graph_equals graph_print insert_double (Call_print s formatter) (x, cout) =
     ((x, GraphAndConstant_print graph_print insert_double x s formatter cout), None)"
| "call graph_eq graph_equals graph_print insert_double (Call_equals other tol) (x, cout) =
     ((x, cout), Some (GraphAndConstant_equals graph_equals x other tol))"

text \<open>A sequence of calls on one object, in order.\<close>

fun calls ::
  "('g \<Rightarrow> 'g \<Rightarrow> bool) \<Rightarrow> ('g \<Rightarrow> 'g \<Rightarrow> double \<Rightarrow> bool) \<Rightarrow>
   ('g \<Rightarrow> string \<Rightarrow> 'f \<Rightarrow> string) \<Rightarrow> (double \<Rightarrow> string) \<Rightarrow>
   ('g, 'f) member_call list \<Rightarrow> 'g GraphAndConstant \<times> string \<Rightarrow>
   'g GraphAndConstant \<times> string" where
  "calls graph_eq graph_equals graph_print insert_double [] st = st"
| "calls graph_eq graph_equals graph_print insert_double (c # cs) st =
     calls graph_eq graph_equals graph_print insert_double cs
       (fst (call graph_eq graph_equals graph_print insert_double c st))"

text \<open>\<^verbatim>\<open>double constant;\<close> is a public member of a struct and is not \<^verbatim>\<open>const\<close>: any
  holder of the object can write \<^verbatim>\<open>x.constant = v\<close>.\<close>

definition write_constant :: "'g GraphAndConstant \<Rightarrow> double \<Rightarrow> 'g GraphAndConstant" where
  "write_constant x v = x\<lparr>constant' := v\<rparr>"

subsection \<open>An instance of the graph component\<close>

text \<open>
  For evaluating at concrete inputs the graph parameter is instantiated by graphs given as
  the list of their factors' handles. \<^verbatim>\<open>==\<close> compares the handles; \<^verbatim>\<open>equals\<close> compares
  them as well, these factors having no numeric content for a tolerance to apply to.
\<close>

type_synonym handle_graph = "nat list"

definition handle_graph_eq :: "handle_graph \<Rightarrow> handle_graph \<Rightarrow> bool" where
  "handle_graph_eq g h = (g = h)"

definition handle_graph_equals :: "handle_graph \<Rightarrow> handle_graph \<Rightarrow> double \<Rightarrow> bool" where
  "handle_graph_equals g h tol = (g = h)"

section \<open>Keys\<close>

text \<open>
  Modelled from the spec: the types \<^verbatim>\<open>Key\<close>, \<^verbatim>\<open>KeyVector\<close>, \<^verbatim>\<open>DiscreteKey\<close> and
  \<^verbatim>\<open>DiscreteKeys\<close> are declared in headers that are not among the sources
  (\<^verbatim>\<open>gtsam/inference/Key.h\<close>, \<^verbatim>\<open>gtsam/discrete/DiscreteKey.h\<close>). The spec (3): a
  continuous key is an identifier, a discrete key is an ``identifier + finite
  cardinality'', and a key set is an ``ordered sequence''. Identifiers and cardinalities
  are taken as 64-bit unsigned integers; only their equality is ever used.
\<close>

type_synonym Key = "64 word"
type_synonym KeyVector = "Key list"
type_synonym DiscreteKey = "Key \<times> 64 word"
type_synonym DiscreteKeys = "DiscreteKey list"

subsection \<open>CollectKeys\<close>

text \<open>
  Modelled from the spec: the header declares
  \<^verbatim>\<open>KeyVector CollectKeys(const KeyVector &keys1, const KeyVector &keys2)\<close> and its body
  is not among the sources. The spec (4.1, \<^verbatim>\<open>mergeContinuous(a, b)\<close>): ``returns the
  ordered union of two continuous key sequences with duplicates removed, preserving
  first-occurrence order from a then b''. The keys are visited in order, first those of
  \<^verbatim>\<open>keys1\<close>, then those of \<^verbatim>\<open>keys2\<close>, and a key is appended to the result unless the
  result holds it already.
\<close>

fun push_back_unique :: "'a list \<Rightarrow> 'a list \<Rightarrow> 'a list" where
  "push_back_unique allKeys [] = allKeys"
| "push_back_unique allKeys (k # ks) =
     push_back_unique (if k \<in> set allKeys then allKeys else allKeys @ [k]) ks"

definition CollectKeys :: "KeyVector \<Rightarrow> KeyVector \<Rightarrow> KeyVector" where
  "CollectKeys keys1 keys2 = push_back_unique (push_back_unique [] keys1) keys2"

text \<open>The position at which a key first occurs in a sequence (its length when the key
  does not occur): the order the spec calls first-occurrence order.\<close>

definition first_occurrence :: "'a list \<Rightarrow> 'a \<Rightarrow> nat" where
  "first_occurrence xs x = length (takeWhile (\<lambda>y. y \<noteq> x) xs)"

subsection \<open>CollectDiscreteKeys\<close>

text \<open>
  Modelled from the spec: the header declares
  \<^verbatim>\<open>DiscreteKeys CollectDiscreteKeys(const DiscreteKeys &key1, const DiscreteKeys &key2)\<close>
  and its body is not among the sources. The spec (4.1, \<^verbatim>\<open>mergeDiscrete(a, b)\<close>):
  ``returns the ordered union of two discrete key sequences (identifier + cardinality
  pairs), deduplicated by identifier; fails (or is undefined) if the same identifier
  appears in both inputs with different cardinalities''. Failure is the value \<open>None\<close>.
\<close>

definition cardinalities_consistent :: "DiscreteKeys \<Rightarrow> DiscreteKeys \<Rightarrow> bool" where
  "cardinalities_consistent key1 key2 =
     list_all (\<lambda>k1. list_all (\<lambda>k2. fst k1 = fst k2 \<longrightarrow> snd k1 = snd k2) key2) key1"

fun push_back_unique_id :: "DiscreteKeys \<Rightarrow> DiscreteKeys \<Rightarrow> DiscreteKeys" where
  "push_back_unique_id allKeys [] = allKeys"
| "push_back_unique_id allKeys (k # ks) =
     push_back_unique_id (if fst k \<in> set (map fst allKeys) then allKeys else allKeys @ [k]) ks"

definition CollectDiscreteKeys :: "DiscreteKeys \<Rightarrow> DiscreteKeys \<Rightarrow> DiscreteKeys option" where
  "CollectDiscreteKeys key1 key2 =
     (if cardinalities_consistent key1 key2
      then Some (push_back_unique_id (push_back_unique_id [] key1) key2)
      else None)"

text \<open>An element \<open>x\<close> stands before an element \<open>y\<close> in a sequence that holds both.\<close>

definition stands_before :: "'a list \<Rightarrow> 'a \<Rightarrow> 'a \<Rightarrow> bool" where
  "stands_before xs x y =
     (x \<in> set xs \<and> y \<in> set xs \<and> first_occurrence xs x < first_occurrence xs y)"

section \<open>HybridFactor\<close>

text \<open>
  \<^verbatim>\<open>class HybridFactor : public Factor\<close> with the private flags \<^verbatim>\<open>isDiscrete_\<close>,
  \<^verbatim>\<open>isContinuous_\<close>, \<^verbatim>\<open>isHybrid_\<close> and the protected key sets \<^verbatim>\<open>discreteKeys_\<close>,
  \<^verbatim>\<open>continuousKeys_\<close>. The base class \<^verbatim>\<open>Factor\<close> is declared in
  \<^verbatim>\<open>gtsam/inference/Factor.h\<close>, which is not among the sources: the state of the base
  sub-object is a value of the type parameter \<open>'b\<close>. (A name cannot end in an underscore
  here; the members are written with a prime.)
\<close>

record 'b HybridFactor =
  Base :: 'b
  isDiscrete' :: bool
  isContinuous' :: bool
  isHybrid' :: bool
  discreteKeys' :: DiscreteKeys
  continuousKeys' :: KeyVector

text \<open>
  \<^verbatim>\<open>HybridFactor() = default;\<close> with the default member initialisers
  \<^verbatim>\<open>bool isDiscrete_ = false; bool isContinuous_ = false; bool isHybrid_ = false;\<close>
  and both key sets default-constructed, that is empty. \<open>b\<close> is the default-constructed
  base sub-object.
\<close>

definition HybridFactor_default :: "'b \<Rightarrow> 'b HybridFactor" where
  "HybridFactor_default b =
     \<lparr>Base = b, isDiscrete' = False, isContinuous' = False, isHybrid' = False,
      discreteKeys' = [], continuousKeys' = []\<rparr>"

text \<open>
  Modelled from the spec: the header declares
  \<^verbatim>\<open>HybridFactor(const KeyVector &continuousKeys, const DiscreteKeys &discreteKeys)\<close> and
  its body is not among the sources. The spec (4.4): ``each constructor computes the
  three flags from the supplied key sets and stores both sets''; continuous-only is
  ``discrete-key-set empty, continuous-key-set non-empty'', discrete-only is
  ``discrete-key-set non-empty, continuous-key-set empty'', hybrid is ``both non-empty''.
  \<open>b\<close> is the base sub-object as the constructor initialises it.
\<close>

definition HybridFactor_ctor :: "'b \<Rightarrow> KeyVector \<Rightarrow> DiscreteKeys \<Rightarrow> 'b HybridFactor" where
  "HybridFactor_ctor b continuousKeys discreteKeys =
     \<lparr>Base = b,
      isDiscrete' = (length continuousKeys = 0 \<and> length discreteKeys \<noteq> 0),
      isContinuous' = (length continuousKeys \<noteq> 0 \<and> length discreteKeys = 0),
      isHybrid' = (length continuousKeys \<noteq> 0 \<and> length discreteKeys \<noteq> 0),
      discreteKeys' = discreteKeys, continuousKeys' = continuousKeys\<rparr>"

text \<open>The accessors \<^verbatim>\<open>isDiscrete()\<close>, \<^verbatim>\<open>isContinuous()\<close>, \<^verbatim>\<open>isHybrid()\<close>,
  \<^verbatim>\<open>nrContinuous()\<close>, \<^verbatim>\<open>discreteKeys()\<close> and \<^verbatim>\<open>continuousKeys()\<close>.\<close>

definition isDiscrete :: "'b HybridFactor \<Rightarrow> bool" where
  "isDiscrete f = isDiscrete' f"

definition isContinuous :: "'b HybridFactor \<Rightarrow> bool" where
  "isContinuous f = isContinuous' f"

definition isHybrid :: "'b HybridFactor \<Rightarrow> bool" where
  "isHybrid f = isHybrid' f"

definition nrContinuous :: "'b HybridFactor \<Rightarrow> nat" where
  "nrContinuous f = length (continuousKeys' f)"

definition discreteKeys :: "'b HybridFactor \<Rightarrow> DiscreteKeys" where
  "discreteKeys f = discreteKeys' f"

definition continuousKeys :: "'b HybridFactor \<Rightarrow> KeyVector" where
  "continuousKeys f = continuousKeys' f"

text \<open>
  Modelled from the spec: the header declares
  \<^verbatim>\<open>virtual bool equals(const HybridFactor &lf, double tol = 1e-9) const\<close> and its body is
  not among the sources. The spec (4.4): ``value equality on all flags and both key sets
  [...] tolerance applies to any numeric state a subclass adds, not to the base class
  itself''.
\<close>

definition HybridFactor_equals :: "'b HybridFactor \<Rightarrow> 'b HybridFactor \<Rightarrow> double \<Rightarrow> bool" where
  "HybridFactor_equals x lf tol =
     (isDiscrete' x = isDiscrete' lf \<and> isContinuous' x = isContinuous' lf \<and>
      isHybrid' x = isHybrid' lf \<and>
      continuousKeys' x = continuousKeys' lf \<and> discreteKeys' x = discreteKeys' lf)"

text \<open>Exactly one of three booleans is true.\<close>

definition exactly_one :: "bool \<Rightarrow> bool \<Rightarrow> bool \<Rightarrow> bool" where
  "exactly_one a b c = ((a \<and> \<not> b \<and> \<not> c) \<or> (\<not> a \<and> b \<and> \<not> c) \<or> (\<not> a \<and> \<not> b \<and> c))"

subsection \<open>Serialization\<close>

text \<open>
  \<^verbatim>\<open>serialize(ARCHIVE &ar, version)\<close> hands six name-value pairs to the archive with
  \<^verbatim>\<open>ar & ...\<close>, in this order: the base object, the three flags, the discrete keys and
  the continuous keys. A saving archive is the sequence of the pairs handed to it;
  \<^verbatim>\<open>BOOST_SERIALIZATION_NVP(m)\<close> names the pair after the member \<^verbatim>\<open>m\<close>, and
  \<^verbatim>\<open>BOOST_SERIALIZATION_BASE_OBJECT_NVP(Base)\<close> names the base object \<^verbatim>\<open>Base\<close>.
\<close>

datatype 'b archive_value =
  BaseObject 'b | BoolValue bool | DiscreteKeysValue DiscreteKeys | KeyVectorValue KeyVector

type_synonym 'b archive = "(string \<times> 'b archive_value) list"

definition archive_amp :: "'b archive \<Rightarrow> string \<times> 'b archive_value \<Rightarrow> 'b archive" where
  "archive_amp ar nvp = ar @ [nvp]"

definition serialize :: "'b archive \<Rightarrow> 'b HybridFactor \<Rightarrow> 'b archive" where
  "serialize ar0 x =
     (let ar1 = archive_amp ar0 (''Base'', BaseObject (Base x));
          ar2 = archive_amp ar1 (''isDiscrete_'', BoolValue (isDiscrete' x));
          ar3 = archive_amp ar2 (''isContinuous_'', BoolValue (isContinuous' x));
          ar4 = archive_amp ar3 (''isHybrid_'', BoolValue (isHybrid' x));
          ar5 = archive_amp ar4 (''discreteKeys_'', DiscreteKeysValue (discreteKeys' x));
          ar6 = archive_amp ar5 (''continuousKeys_'', KeyVectorValue (continuousKeys' x))
      in ar6)"

section \<open>Facts about doubles\<close>

lemma less_double_not_finite_left:
  "less_double PosInf t = False" "less_double NaN t = False"
  by (cases t; simp)+

lemma eq_double_iff: "eq_double a b = (a = b \<and> a \<noteq> NaN)"
  by (cases a; cases b) simp_all

lemma minus_double_swap: "fabs (minus_double a b) = fabs (minus_double b a)"
  by (cases a; cases b) simp_all

lemma less_le_double_trans: "less_double a b \<Longrightarrow> le_double b c \<Longrightarrow> less_double a c"
  by (cases a; cases b; cases c) (auto simp: le_double_def)

lemma fabs_minus_self: "fabs (minus_double c c) = (if isfinite c then Finite 0 else NaN)"
  by (cases c) simp_all

section \<open>GraphAndConstant: equality\<close>





text \<open>
  Claim C3, as the code has it. \<^verbatim>\<open>x.equals(x, tol)\<close> is true iff the graph equals itself
  at \<open>tol\<close>, the constant is finite and \<open>tol\<close> is positive (so it is false at
  \<open>tol = 0\<close>); \<^verbatim>\<open>equals\<close> is symmetric for two values wherever the graph component's
  \<^verbatim>\<open>equals\<close> is symmetric for their graphs; and a looser tolerance \<open>tol <= tol'\<close> keeps a
  true result wherever it keeps the graph component's result.
\<close>

theorem GraphAndConstant_equals_relational:
  "(GraphAndConstant_equals ge x x tol \<longleftrightarrow>
      ge (graph x) (graph x) tol \<and> isfinite (constant' x) \<and> less_double (Finite 0) tol)
   \<and> (ge (graph x) (graph y) tol = ge (graph y) (graph x) tol \<longrightarrow>
      GraphAndConstant_equals ge x y tol = GraphAndConstant_equals ge y x tol)
   \<and> (le_double tol tol' \<and> (ge (graph x) (graph y) tol \<longrightarrow> ge (graph x) (graph y) tol') \<and>
      GraphAndConstant_equals ge x y tol \<longrightarrow> GraphAndConstant_equals ge x y tol')"
proof (intro conjI impI)
  show "GraphAndConstant_equals ge x x tol \<longleftrightarrow>
      ge (graph x) (graph x) tol \<and> isfinite (constant' x) \<and> less_double (Finite 0) tol"
    by (cases "constant' x")
       (simp_all add: GraphAndConstant_equals_def less_double_not_finite_left)
next
  assume "ge (graph x) (graph y) tol = ge (graph y) (graph x) tol"
  then show "GraphAndConstant_equals ge x y tol = GraphAndConstant_equals ge y x tol"
    by (simp add: GraphAndConstant_equals_def minus_double_swap [of "constant' x"])
next
  assume h: "le_double tol tol' \<and> (ge (graph x) (graph y) tol \<longrightarrow> ge (graph x) (graph y) tol') \<and>
      GraphAndConstant_equals ge x y tol"
  then have "less_double (fabs (minus_double (constant' x) (constant' y))) tol'"
    using less_le_double_trans by (auto simp: GraphAndConstant_equals_def)
  with h show "GraphAndConstant_equals ge x y tol'"
    by (simp add: GraphAndConstant_equals_def)
qed

text \<open>Claim C3, the three parts at concrete values: tolerance \<open>1e-9\<close> for reflexivity,
  constants \<open>2\<close> and \<open>2.125\<close> at tolerances \<open>0.25\<close> and \<open>1\<close> for the other two.\<close>

theorem GraphAndConstant_equals_relational_witness:
  "GraphAndConstant_equals handle_graph_equals
      \<lparr>graph = [1], constant' = Finite 2\<rparr> \<lparr>graph = [1], constant' = Finite 2\<rparr> (Finite (1 / 10 ^ 9))
   \<and> handle_graph_equals [1] [1] (Finite (1 / 4)) = handle_graph_equals [1] [1] (Finite (1 / 4))
   \<and> GraphAndConstant_equals handle_graph_equals
      \<lparr>graph = [1], constant' = Finite 2\<rparr> \<lparr>graph = [1], constant' = Finite (17 / 8)\<rparr> (Finite (1 / 4))
     = GraphAndConstant_equals handle_graph_equals
      \<lparr>graph = [1], constant' = Finite (17 / 8)\<rparr> \<lparr>graph = [1], constant' = Finite 2\<rparr> (Finite (1 / 4))
   \<and> le_double (Finite (1 / 4)) (Finite 1)
   \<and> GraphAndConstant_equals handle_graph_equals
      \<lparr>graph = [1], constant' = Finite 2\<rparr> \<lparr>graph = [1], constant' = Finite (17 / 8)\<rparr> (Finite (1 / 4))
   \<and> GraphAndConstant_equals handle_graph_equals
      \<lparr>graph = [1], constant' = Finite 2\<rparr> \<lparr>graph = [1], constant' = Finite (17 / 8)\<rparr> (Finite 1)"
  using GraphAndConstant_equals_relational [of handle_graph_equals
      "\<lparr>graph = [1], constant' = Finite 2\<rparr>" "Finite (1 / 10 ^ 9)"]
    GraphAndConstant_equals_relational [of handle_graph_equals
      "\<lparr>graph = [1], constant' = Finite 2\<rparr>" "Finite (1 / 4)"
      "\<lparr>graph = [1], constant' = Finite (17 / 8)\<rparr>" "Finite 1"]
  by (simp add: handle_graph_equals_def le_double_def GraphAndConstant_equals_def)

text \<open>
  Claim C3 as stated has \<^verbatim>\<open>x.equals(x, 0)\<close> true. For the empty graph with constant 0,
  \<^verbatim>\<open>fabs(0 - 0) < 0\<close> is false and so is \<^verbatim>\<open>equals\<close>.
\<close>

theorem GraphAndConstant_equals_zero_tol_counterexample:
  "\<not> GraphAndConstant_equals handle_graph_equals
        \<lparr>graph = [], constant' = Finite 0\<rparr> \<lparr>graph = [], constant' = Finite 0\<rparr> (Finite 0)"
  by (simp add: GraphAndConstant_equals_def)

section \<open>GraphAndConstant: construction\<close>

lemma call_keeps_object:
  "fst (fst (call graph_eq graph_equals graph_print insert_double c (x, cout))) = x"
  by (cases c) simp_all

lemma calls_keep_object:
  "fst (calls graph_eq graph_equals graph_print insert_double cs (x, cout)) = x"
proof (induction cs arbitrary: cout)
  case Nil
  show ?case by simp
next
  case (Cons c cs)
  obtain x' cout' where
    st: "fst (call graph_eq graph_equals graph_print insert_double c (x, cout)) = (x', cout')"
    by (cases "fst (call graph_eq graph_equals graph_print insert_double c (x, cout))")
  then have "x' = x"
    using call_keeps_object [of graph_eq graph_equals graph_print insert_double c x cout]
    by simp
  with st Cons.IH [of cout'] show ?case by simp
qed

text \<open>
  Claim C8, as the code has it. The constructor stores the graph and the constant it is
  given, unchanged and unchecked: the stored constant is finite exactly when the constant
  supplied is. No sequence of calls of \<^verbatim>\<open>==\<close>, \<^verbatim>\<open>print\<close> and \<^verbatim>\<open>equals\<close> changes the
  object: after it the stored constant is still the one supplied at construction. A write
  to the public member, \<^verbatim>\<open>x.constant = v\<close>, replaces the stored constant by \<open>v\<close> and
  leaves the graph.
\<close>

theorem GraphAndConstant_ctor_stores:
  "graph (GraphAndConstant_ctor g c) = g \<and> constant' (GraphAndConstant_ctor g c) = c
   \<and> isfinite (constant' (GraphAndConstant_ctor g c)) = isfinite c
   \<and> fst (calls graph_eq graph_equals graph_print insert_double cs (x, cout)) = x
   \<and> constant' (fst (calls graph_eq graph_equals graph_print insert_double cs
        (GraphAndConstant_ctor g c, cout))) = c
   \<and> constant' (write_constant x v) = v \<and> graph (write_constant x v) = graph x"
proof -
  have stored: "GraphAndConstant_ctor g c = \<lparr>graph = g, constant' = c\<rparr>"
    by (simp add: GraphAndConstant_ctor_def)
  have kept: "fst (calls graph_eq graph_equals graph_print insert_double cs (z, cout)) = z"
    for z :: "'a GraphAndConstant"
    by (rule calls_keep_object)
  have written: "write_constant x v = \<lparr>graph = graph x, constant' = v\<rparr>"
    by (simp add: write_constant_def)
  show ?thesis
    by (simp add: stored kept written)
qed

text \<open>
  Claim C8 as stated has every \<^verbatim>\<open>GraphAndConstant\<close> hold a finite constant that no
  operation changes. Constructed from the empty graph and \<^verbatim>\<open>+infinity\<close>, the stored
  constant is not finite; and on the object constructed from the empty graph and \<open>0\<close>,
  the write \<^verbatim>\<open>x.constant = +infinity\<close> turns a finite stored constant into one that is
  not.
\<close>

theorem GraphAndConstant_ctor_infinite_counterexample:
  "\<not> isfinite (constant' (GraphAndConstant_ctor ([] :: handle_graph) PosInf))
   \<and> isfinite (constant' (GraphAndConstant_ctor ([] :: handle_graph) (Finite 0)))
   \<and> \<not> isfinite (constant'
        (write_constant (GraphAndConstant_ctor ([] :: handle_graph) (Finite 0)) PosInf))"
  by (simp add: GraphAndConstant_ctor_def write_constant_def)

section \<open>GraphAndConstant: operator== against equals\<close>

text \<open>
  Claim C10, as the code has it. \<^verbatim>\<open>x == y\<close> is true iff \<^verbatim>\<open>x.graph == y.graph\<close> and the
  two constants are equal as doubles (the same value, not a NaN). For a positive
  tolerance, \<^verbatim>\<open>x == y\<close> implies \<^verbatim>\<open>x.equals(y, tol)\<close> when the constant is finite and the
  graph component's \<^verbatim>\<open>==\<close> implies its \<^verbatim>\<open>equals\<close> at \<open>tol\<close> for the two graphs. The
  converse fails: for every positive finite \<open>t\<close> and every graph that equals itself at
  \<open>t\<close>, the constants \<open>0\<close> and \<open>t / 2\<close> give \<^verbatim>\<open>equals\<close> true and \<^verbatim>\<open>==\<close> false.
\<close>

theorem GraphAndConstant_operator_eq_vs_equals:
  "(GraphAndConstant_operator_eq geq x y \<longleftrightarrow>
      geq (graph x) (graph y) \<and> constant' x = constant' y \<and> constant' x \<noteq> NaN)
   \<and> (GraphAndConstant_operator_eq geq x y \<and> isfinite (constant' x) \<and>
       less_double (Finite 0) tol \<and> (geq (graph x) (graph y) \<longrightarrow> ge (graph x) (graph y) tol)
      \<longrightarrow> GraphAndConstant_equals ge x y tol)
   \<and> (0 < t \<and> ge g g (Finite t) \<longrightarrow>
       GraphAndConstant_equals ge
         \<lparr>graph = g, constant' = Finite 0\<rparr> \<lparr>graph = g, constant' = Finite (t / 2)\<rparr> (Finite t) \<and>
       \<not> GraphAndConstant_operator_eq geq
         \<lparr>graph = g, constant' = Finite 0\<rparr> \<lparr>graph = g, constant' = Finite (t / 2)\<rparr>)"
proof (intro conjI impI)
  show "GraphAndConstant_operator_eq geq x y \<longleftrightarrow>
      geq (graph x) (graph y) \<and> constant' x = constant' y \<and> constant' x \<noteq> NaN"
    by (simp add: GraphAndConstant_operator_eq_def eq_double_iff)
next
  assume h: "GraphAndConstant_operator_eq geq x y \<and> isfinite (constant' x) \<and>
       less_double (Finite 0) tol \<and> (geq (graph x) (graph y) \<longrightarrow> ge (graph x) (graph y) tol)"
  then have "constant' y = constant' x"
    by (simp add: GraphAndConstant_operator_eq_def eq_double_iff)
  with h show "GraphAndConstant_equals ge x y tol"
    by (simp add: GraphAndConstant_equals_def GraphAndConstant_operator_eq_def fabs_minus_self)
next
  assume "0 < t \<and> ge g g (Finite t)"
  then show "GraphAndConstant_equals ge
         \<lparr>graph = g, constant' = Finite 0\<rparr> \<lparr>graph = g, constant' = Finite (t / 2)\<rparr> (Finite t)"
    by (simp add: GraphAndConstant_equals_def)
next
  assume "0 < t \<and> ge g g (Finite t)"
  then show "\<not> GraphAndConstant_operator_eq geq
         \<lparr>graph = g, constant' = Finite 0\<rparr> \<lparr>graph = g, constant' = Finite (t / 2)\<rparr>"
    by (simp add: GraphAndConstant_operator_eq_def)
qed

text \<open>Claim C10 at concrete values: the graph \<open>[1]\<close>, the constant \<open>2\<close> and tolerance
  \<open>1e-9\<close>; then the constants \<open>0\<close> and \<open>0.125\<close> at tolerance \<open>0.25\<close>.\<close>

theorem GraphAndConstant_operator_eq_vs_equals_witness:
  "GraphAndConstant_operator_eq handle_graph_eq
      \<lparr>graph = [1], constant' = Finite 2\<rparr> \<lparr>graph = [1], constant' = Finite 2\<rparr>
   \<and> isfinite (Finite 2) \<and> less_double (Finite 0) (Finite (1 / 10 ^ 9))
   \<and> handle_graph_equals [1] [1] (Finite (1 / 10 ^ 9))
   \<and> GraphAndConstant_equals handle_graph_equals
      \<lparr>graph = [1], constant' = Finite 2\<rparr> \<lparr>graph = [1], constant' = Finite 2\<rparr> (Finite (1 / 10 ^ 9))
   \<and> (0::real) < 1 / 4
   \<and> GraphAndConstant_equals handle_graph_equals
      \<lparr>graph = [1], constant' = Finite 0\<rparr> \<lparr>graph = [1], constant' = Finite (1 / 4 / 2)\<rparr> (Finite (1 / 4))
   \<and> \<not> GraphAndConstant_operator_eq handle_graph_eq
      \<lparr>graph = [1], constant' = Finite 0\<rparr> \<lparr>graph = [1], constant' = Finite (1 / 4 / 2)\<rparr>"
  using GraphAndConstant_operator_eq_vs_equals [of handle_graph_eq
      "\<lparr>graph = [1], constant' = Finite 2\<rparr>" "\<lparr>graph = [1], constant' = Finite 2\<rparr>"
      "Finite (1 / 10 ^ 9)" handle_graph_equals "1 / 4" "[1]"]
  by (simp add: handle_graph_equals_def handle_graph_eq_def)

text \<open>
  Claim C10 as stated has \<^verbatim>\<open>x == y\<close> imply \<^verbatim>\<open>x.equals(y, tol)\<close> for every pair. With
  the constant \<^verbatim>\<open>+infinity\<close> on both sides \<^verbatim>\<open>==\<close> is true, while
  \<^verbatim>\<open>fabs(inf - inf)\<close> is a NaN, which is not less than \<open>1e-9\<close>: \<^verbatim>\<open>equals\<close> is false.
\<close>

theorem GraphAndConstant_operator_eq_infinite_counterexample:
  "GraphAndConstant_operator_eq handle_graph_eq
      \<lparr>graph = [], constant' = PosInf\<rparr> \<lparr>graph = [], constant' = PosInf\<rparr>
   \<and> less_double (Finite 0) (Finite (1 / 10 ^ 9))
   \<and> \<not> GraphAndConstant_equals handle_graph_equals
      \<lparr>graph = [], constant' = PosInf\<rparr> \<lparr>graph = [], constant' = PosInf\<rparr> (Finite (1 / 10 ^ 9))"
  by (simp add: GraphAndConstant_operator_eq_def GraphAndConstant_equals_def handle_graph_eq_def)

section \<open>HybridFactor: classification\<close>

text \<open>
  Claim C1. For a factor constructed from a continuous key set and a discrete key set,
  \<^verbatim>\<open>isHybrid()\<close> is true iff both key sets are non-empty; when at least one key set is
  non-empty exactly one of \<^verbatim>\<open>isDiscrete()\<close>, \<^verbatim>\<open>isContinuous()\<close>, \<^verbatim>\<open>isHybrid()\<close> is
  true; and non-empty continuous keys with empty discrete keys give \<^verbatim>\<open>isContinuous()\<close>
  true and the other two false.
\<close>

theorem HybridFactor_ctor_classification:
  "isHybrid (HybridFactor_ctor b ck dk) = (ck \<noteq> [] \<and> dk \<noteq> [])
   \<and> (ck \<noteq> [] \<or> dk \<noteq> [] \<longrightarrow>
        exactly_one (isDiscrete (HybridFactor_ctor b ck dk))
          (isContinuous (HybridFactor_ctor b ck dk)) (isHybrid (HybridFactor_ctor b ck dk)))
   \<and> (ck \<noteq> [] \<and> dk = [] \<longrightarrow>
        isContinuous (HybridFactor_ctor b ck dk) \<and> \<not> isDiscrete (HybridFactor_ctor b ck dk) \<and>
        \<not> isHybrid (HybridFactor_ctor b ck dk))"
  by (auto simp: HybridFactor_ctor_def isHybrid_def isDiscrete_def isContinuous_def
      exactly_one_def)

text \<open>Claim C1 at concrete key sets: both non-empty, only the discrete keys non-empty,
  only the continuous keys non-empty.\<close>

theorem HybridFactor_ctor_classification_witness:
  "isHybrid (HybridFactor_ctor () [1] [(2, 3)])
   \<and> exactly_one (isDiscrete (HybridFactor_ctor () [1] [(2, 3)]))
        (isContinuous (HybridFactor_ctor () [1] [(2, 3)])) (isHybrid (HybridFactor_ctor () [1] [(2, 3)]))
   \<and> exactly_one (isDiscrete (HybridFactor_ctor () [] [(2, 3)]))
        (isContinuous (HybridFactor_ctor () [] [(2, 3)])) (isHybrid (HybridFactor_ctor () [] [(2, 3)]))
   \<and> isContinuous (HybridFactor_ctor () [1] []) \<and> \<not> isDiscrete (HybridFactor_ctor () [1] []) \<and>
     \<not> isHybrid (HybridFactor_ctor () [1] [])"
  using HybridFactor_ctor_classification [of "()" "[1]" "[(2, 3)]"]
    HybridFactor_ctor_classification [of "()" "[]" "[(2, 3)]"]
    HybridFactor_ctor_classification [of "()" "[1]" "[]"]
  by (simp add: HybridFactor_ctor_def isHybrid_def isDiscrete_def isContinuous_def
      exactly_one_def)

text \<open>
  Claim C6. The default constructor leaves all three flags false and both key sets
  empty, and a factor constructed from two empty key sets has all three flags false
  as well.
\<close>

theorem HybridFactor_empty_all_flags_false:
  "\<not> isDiscrete (HybridFactor_default b) \<and> \<not> isContinuous (HybridFactor_default b) \<and>
   \<not> isHybrid (HybridFactor_default b) \<and>
   discreteKeys (HybridFactor_default b) = [] \<and> continuousKeys (HybridFactor_default b) = [] \<and>
   \<not> isDiscrete (HybridFactor_ctor b [] []) \<and> \<not> isContinuous (HybridFactor_ctor b [] []) \<and>
   \<not> isHybrid (HybridFactor_ctor b [] [])"
  by (simp add: HybridFactor_default_def HybridFactor_ctor_def isHybrid_def isDiscrete_def
      isContinuous_def discreteKeys_def continuousKeys_def)

section \<open>HybridFactor: equals\<close>

text \<open>
  Claim C7. \<^verbatim>\<open>x.equals(y, tol)\<close> is true iff the three flags and both key sets of \<open>x\<close>
  and \<open>y\<close> are pairwise equal, and the result is the same at every tolerance.
\<close>

theorem HybridFactor_equals_flags_and_keys:
  "HybridFactor_equals x y tol =
     (isDiscrete x = isDiscrete y \<and> isContinuous x = isContinuous y \<and> isHybrid x = isHybrid y \<and>
      discreteKeys x = discreteKeys y \<and> continuousKeys x = continuousKeys y)
   \<and> HybridFactor_equals x y tol = HybridFactor_equals x y tol'"
  by (auto simp: HybridFactor_equals_def isHybrid_def isDiscrete_def
      isContinuous_def discreteKeys_def continuousKeys_def)

section \<open>HybridFactor: serialization\<close>

text \<open>
  Claim C9. \<^verbatim>\<open>serialize\<close> appends to the archive exactly six pairs, in this order: the
  base object, \<^verbatim>\<open>isDiscrete_\<close>, \<^verbatim>\<open>isContinuous_\<close>, \<^verbatim>\<open>isHybrid_\<close>, \<^verbatim>\<open>discreteKeys_\<close>
  and \<^verbatim>\<open>continuousKeys_\<close>. Nothing of the factor is left out: two factors have the same
  serialized form iff they are equal.
\<close>

theorem serialize_fields:
  "serialize ar x = ar @
      [(''Base'', BaseObject (Base x)),
       (''isDiscrete_'', BoolValue (isDiscrete' x)),
       (''isContinuous_'', BoolValue (isContinuous' x)),
       (''isHybrid_'', BoolValue (isHybrid' x)),
       (''discreteKeys_'', DiscreteKeysValue (discreteKeys' x)),
       (''continuousKeys_'', KeyVectorValue (continuousKeys' x))]
   \<and> map fst (serialize [] x) =
      [''Base'', ''isDiscrete_'', ''isContinuous_'', ''isHybrid_'', ''discreteKeys_'',
       ''continuousKeys_'']
   \<and> (serialize ar x = serialize ar y) = (x = y)"
proof -
  have fields: "serialize a z = a @
      [(''Base'', BaseObject (Base z)),
       (''isDiscrete_'', BoolValue (isDiscrete' z)),
       (''isContinuous_'', BoolValue (isContinuous' z)),
       (''isHybrid_'', BoolValue (isHybrid' z)),
       (''discreteKeys_'', DiscreteKeysValue (discreteKeys' z)),
       (''continuousKeys_'', KeyVectorValue (continuousKeys' z))]" for a and z :: "'a HybridFactor"
    by (simp add: serialize_def archive_amp_def)
  have "(serialize ar x = serialize ar y) = (x = y)"
    by (cases x; cases y) (auto simp: fields)
  then show ?thesis
    by (simp add: fields)
qed

section \<open>CollectKeys\<close>

lemma first_occurrence_append_in:
  "x \<in> set xs \<Longrightarrow> first_occurrence (xs @ ys) x = first_occurrence xs x"
  by (simp add: first_occurrence_def)

lemma first_occurrence_append_notin:
  "x \<notin> set xs \<Longrightarrow> first_occurrence (xs @ ys) x = length xs + first_occurrence ys x"
  by (induction xs) (auto simp: first_occurrence_def)

lemma first_occurrence_less:
  "x \<in> set xs \<Longrightarrow> first_occurrence xs x < length xs"
  unfolding first_occurrence_def
  by (induction xs) auto

lemma set_push_back_unique: "set (push_back_unique acc ks) = set acc \<union> set ks"
  by (induction ks arbitrary: acc) auto

lemma distinct_push_back_unique:
  "distinct acc \<Longrightarrow> distinct (push_back_unique acc ks)"
  by (induction ks arbitrary: acc) auto

text \<open>The loop keeps the result in first-occurrence order of the keys seen so far.\<close>

lemma push_back_unique_order:
  "sorted_wrt (\<lambda>x y. first_occurrence seen x < first_occurrence seen y) acc \<Longrightarrow>
   set acc = set seen \<Longrightarrow>
   sorted_wrt (\<lambda>x y. first_occurrence (seen @ ks) x < first_occurrence (seen @ ks) y)
     (push_back_unique acc ks)"
proof (induction ks arbitrary: acc seen)
  case Nil
  then show ?case by simp
next
  case (Cons k ks)
  let ?seen = "seen @ [k]"
  let ?acc = "if k \<in> set acc then acc else acc @ [k]"
  have old: "sorted_wrt (\<lambda>x y. first_occurrence ?seen x < first_occurrence ?seen y) acc"
    using Cons.prems
    by (auto simp: first_occurrence_append_in elim!: sorted_wrt_mono_rel [rotated])
  have new: "first_occurrence ?seen x < first_occurrence ?seen k" if "x \<in> set acc" "k \<notin> set acc" for x
    using that Cons.prems(2) first_occurrence_less [of x seen]
    by (simp add: first_occurrence_append_in first_occurrence_append_notin)
  have "sorted_wrt (\<lambda>x y. first_occurrence ?seen x < first_occurrence ?seen y) ?acc"
    using old new by (simp add: sorted_wrt_append)
  moreover have "set ?acc = set ?seen"
    using Cons.prems(2) by auto
  ultimately have "sorted_wrt (\<lambda>x y. first_occurrence (?seen @ ks) x < first_occurrence (?seen @ ks) y)
     (push_back_unique ?acc ks)"
    by (rule Cons.IH)
  then show ?case by simp
qed

lemma count_list_distinct:
  "distinct xs \<Longrightarrow> count_list xs x = (if x \<in> set xs then 1 else 0)"
  by (induction xs) auto

text \<open>
  Claim C4. \<^verbatim>\<open>CollectKeys(a, b)\<close> is the ordered union of \<open>a\<close> and \<open>b\<close>: it holds the
  elements of \<open>a\<close> and of \<open>b\<close> and nothing else, each exactly once, in the order of their
  first occurrence in \<open>a\<close> followed by \<open>b\<close>.
\<close>

theorem CollectKeys_ordered_union:
  "set (CollectKeys a b) = set a \<union> set b
   \<and> distinct (CollectKeys a b)
   \<and> count_list (CollectKeys a b) x = (if x \<in> set a \<union> set b then 1 else 0)
   \<and> sorted_wrt (\<lambda>x y. first_occurrence (a @ b) x < first_occurrence (a @ b) y)
        (CollectKeys a b)"
proof -
  have s: "set (CollectKeys a b) = set a \<union> set b"
    by (simp add: CollectKeys_def set_push_back_unique)
  have d: "distinct (CollectKeys a b)"
    by (simp add: CollectKeys_def distinct_push_back_unique)
  have "sorted_wrt (\<lambda>x y. first_occurrence ([] @ a) x < first_occurrence ([] @ a) y)
          (push_back_unique [] a)"
    by (rule push_back_unique_order) simp_all
  then have "sorted_wrt (\<lambda>x y. first_occurrence (a @ b) x < first_occurrence (a @ b) y)
          (push_back_unique (push_back_unique [] a) b)"
    by (intro push_back_unique_order) (simp_all add: set_push_back_unique)
  then show ?thesis
    using s d count_list_distinct [OF d, of x] by (simp add: CollectKeys_def)
qed

section \<open>CollectDiscreteKeys\<close>

lemma ids_push_back_unique_id:
  "fst ` set (push_back_unique_id acc ks) = fst ` set acc \<union> fst ` set ks"
  by (induction ks arbitrary: acc) auto

lemma distinct_push_back_unique_id:
  "distinct (map fst acc) \<Longrightarrow> distinct (map fst (push_back_unique_id acc ks))"
  by (induction ks arbitrary: acc) auto

lemma subseq_push_back_unique_id: "subseq (push_back_unique_id acc ks) (acc @ ks)"
proof (induction ks arbitrary: acc)
  case Nil
  then show ?case by simp
next
  case (Cons k ks)
  show ?case
  proof (cases "fst k \<in> set (map fst acc)")
    case True
    have "subseq (acc @ ks) (acc @ k # ks)"
      by (intro list_emb_append_mono) (simp_all add: subseq_Cons')
    with Cons [of acc] True show ?thesis
      using subseq_order.order_trans by fastforce
  next
    case False
    with Cons [of "acc @ [k]"] show ?thesis by simp
  qed
qed

lemma push_back_unique_id_distinct_input:
  "distinct (map fst ks) \<Longrightarrow>
   push_back_unique_id acc ks = acc @ filter (\<lambda>k. fst k \<notin> fst ` set acc) ks"
proof (induction ks arbitrary: acc)
  case Nil
  then show ?case by simp
next
  case (Cons k ks)
  have "fst x \<noteq> fst k" if "x \<in> set ks" for x
  proof
    assume "fst x = fst k"
    with that have "fst k \<in> set (map fst ks)" by (metis image_eqI list.set_map)
    with Cons.prems show False by simp
  qed
  then have "filter (\<lambda>x. fst x \<notin> fst ` set (acc @ [k])) ks = filter (\<lambda>x. fst x \<notin> fst ` set acc) ks"
    by (intro filter_cong) auto
  with Cons show ?case by auto
qed

text \<open>
  Claim C5, as the merge has it. For \<open>a\<close> and \<open>b\<close> whose shared identifiers carry the same
  cardinality in both, \<^verbatim>\<open>CollectDiscreteKeys(a, b)\<close> returns a sequence with no duplicate
  identifiers that holds every identifier of \<open>a\<close> and of \<open>b\<close> and is a subsequence of
  \<open>a\<close> followed by \<open>b\<close>. When neither input repeats an identifier it is \<open>a\<close> itself,
  followed in the order of \<open>b\<close> by those elements of \<open>b\<close> whose identifier does not occur
  in \<open>a\<close>: the order of \<open>a\<close> is kept, that of \<open>b\<close> among the elements \<open>b\<close> adds.
\<close>

theorem CollectDiscreteKeys_merge:
  assumes "cardinalities_consistent a b"
  shows "\<exists>r. CollectDiscreteKeys a b = Some r \<and> distinct (map fst r) \<and>
           fst ` set r = fst ` (set a \<union> set b) \<and> subseq r (a @ b) \<and>
           (distinct (map fst a) \<and> distinct (map fst b) \<longrightarrow>
              r = a @ filter (\<lambda>k. fst k \<notin> fst ` set a) b)"
proof -
  let ?ra = "push_back_unique_id [] a"
  let ?r = "push_back_unique_id ?ra b"
  have r: "CollectDiscreteKeys a b = Some ?r"
    using assms by (simp add: CollectDiscreteKeys_def)
  have d: "distinct (map fst ?r)"
    by (simp add: distinct_push_back_unique_id)
  have i: "fst ` set ?r = fst ` (set a \<union> set b)"
    by (simp add: ids_push_back_unique_id image_Un)
  have "subseq ?ra a"
    using subseq_push_back_unique_id [of "[]" a] by simp
  then have "subseq (?ra @ b) (a @ b)"
    by (simp add: list_emb_append_mono)
  then have s: "subseq ?r (a @ b)"
    using subseq_push_back_unique_id [of ?ra b] subseq_order.order_trans by blast
  have c: "?r = a @ filter (\<lambda>k. fst k \<notin> fst ` set a) b"
    if "distinct (map fst a) \<and> distinct (map fst b)"
    using that by (simp add: push_back_unique_id_distinct_input)
  from r d i s c show ?thesis by blast
qed

text \<open>Claim C5 at the inputs \<open>[(1,2), (2,3)]\<close> and \<open>[(3,2), (2,3), (4,5)]\<close>, which
  share the identifier 2 with cardinality 3.\<close>

theorem CollectDiscreteKeys_merge_witness:
  "cardinalities_consistent [(1, 2), (2, 3)] [(3, 2), (2, 3), (4, 5)] \<and>
   distinct (map fst [(1 :: Key, 2 :: 64 word), (2, 3)]) \<and>
   distinct (map fst [(3 :: Key, 2 :: 64 word), (2, 3), (4, 5)]) \<and>
   CollectDiscreteKeys [(1, 2), (2, 3)] [(3, 2), (2, 3), (4, 5)] =
     Some [(1, 2), (2, 3), (3, 2), (4, 5)]"
  using CollectDiscreteKeys_merge [of "[(1, 2), (2, 3)]" "[(3, 2), (2, 3), (4, 5)]"]
  by (simp add: cardinalities_consistent_def CollectDiscreteKeys_def)

text \<open>
  Claim C5 as stated has the result keep the relative order of the elements of \<open>b\<close>. For
  \<open>a = [(1,2), (2,2)]\<close> and \<open>b = [(2,2), (1,2)]\<close>, consistent in their cardinalities, the
  key \<open>(2,2)\<close> stands before \<open>(1,2)\<close> in \<open>b\<close> and after it in the result. (No sequence
  keeps the order of both inputs here.)
\<close>

theorem CollectDiscreteKeys_order_counterexample:
  "cardinalities_consistent [(1, 2), (2, 2)] [(2, 2), (1, 2)] \<and>
   CollectDiscreteKeys [(1, 2), (2, 2)] [(2, 2), (1, 2)] = Some [(1, 2), (2, 2)] \<and>
   stands_before [(2, 2), (1, 2)] (2 :: Key, 2 :: 64 word) (1, 2) \<and>
   \<not> stands_before [(1, 2), (2, 2)] (2 :: Key, 2 :: 64 word) (1, 2)"
  by (simp add: cardinalities_consistent_def CollectDiscreteKeys_def stands_before_def
      first_occurrence_def)

end
